theory Spec2Isabelle
  imports Main "HOL-Library.Word"
begin

section \<open>The IR node data model of \<^verbatim>\<open>src/sksl/ir/SkSLIRNode.h\<close>\<close>

subsection \<open>Pointers, faults and the scope-table heap\<close>

text \<open>
  Every pointer of the header is an address or null. The pointees (\<^verbatim>\<open>Type\<close>,
  \<^verbatim>\<open>ExternalValue\<close>, \<^verbatim>\<open>Variable\<close>, \<^verbatim>\<open>FunctionDeclaration\<close>, \<^verbatim>\<open>Symbol\<close>,
  \<^verbatim>\<open>Expression\<close>, \<^verbatim>\<open>SymbolTable\<close>) are only forward-declared in the header, so a
  pointee is identified with its address.
\<close>

type_synonym addr = nat

datatype ptr = Null | Ptr addr

text \<open>
  The three ways an operation of the header stops instead of returning: a failed
  \<^verbatim>\<open>SkASSERT\<close>, reaching \<^verbatim>\<open>SkUNREACHABLE\<close>, and applying \<^verbatim>\<open>*\<close> to a null pointer.
\<close>

datatype fault = AssertionFailed | Unreachable | NullDereference

text \<open>
  Modelled from the spec: the macros \<^verbatim>\<open>SkASSERT\<close> and \<^verbatim>\<open>SkUNREACHABLE\<close> are defined
  outside the header. Section 7 of the specification makes every contract violation an
  unconditional fault, so a failed assertion stops the operation, and so does reaching
  \<^verbatim>\<open>SkUNREACHABLE\<close>.
\<close>

definition SkASSERT :: "bool \<Rightarrow> (fault + 'a) \<Rightarrow> fault + 'a" where
  "SkASSERT c k = (if c then k else Inl AssertionFailed)"

definition SkUNREACHABLE :: "fault + 'a" where
  "SkUNREACHABLE = Inl Unreachable"

definition and_then :: "(fault + 'a) \<Rightarrow> ('a \<Rightarrow> fault + 'b) \<Rightarrow> fault + 'b" where
  "and_then m f = (case m of Inl e \<Rightarrow> Inl e | Inr x \<Rightarrow> f x)"

text \<open>\<^verbatim>\<open>*p\<close> for a raw pointer: the reference to the pointee, or a fault when \<^verbatim>\<open>p\<close> is null.\<close>

definition deref :: "ptr \<Rightarrow> fault + addr" where
  "deref p = (case p of Null \<Rightarrow> Inl NullDereference | Ptr a \<Rightarrow> Inr a)"

text \<open>
  A \<^verbatim>\<open>std::shared_ptr<SymbolTable>\<close> is a \<^typ>\<open>ptr\<close> to a table together with the
  table's share count, which lives in the heap: \<open>use_count h a\<close> is the number of shares of
  the table at \<open>a\<close>, and \<open>0\<close> means that there is no live table at \<open>a\<close>. The heap also
  keeps a log of what happened to the share counts, oldest event first, so that the order
  of acquisitions and releases can be stated.
\<close>

datatype event = Acquire addr | Release addr | TableDestroyed addr

record heap =
  use_count :: "addr \<Rightarrow> nat"
  log :: "event list"

text \<open>Copying a handle adds one share of its table; a null handle shares nothing.\<close>

definition shared_ptr_copy :: "ptr \<Rightarrow> heap \<Rightarrow> heap" where
  "shared_ptr_copy p h =
     (case p of
        Null \<Rightarrow> h
      | Ptr a \<Rightarrow> h\<lparr>use_count := (use_count h)(a := Suc (use_count h a)),
                   log := log h @ [Acquire a]\<rparr>)"

text \<open>
  Destroying a handle gives its share back; the table is destroyed with its last share.
  A handle always owns a share, so the count is at least one when a handle is released; the
  branch for a count below two also covers a heap that breaks this rule, where the log
  then records the destruction of the table once more.
\<close>

definition shared_ptr_release :: "ptr \<Rightarrow> heap \<Rightarrow> heap" where
  "shared_ptr_release p h =
     (case p of
        Null \<Rightarrow> h
      | Ptr a \<Rightarrow>
          (if use_count h a \<le> 1
           then h\<lparr>use_count := (use_count h)(a := 0),
                  log := log h @ [Release a, TableDestroyed a]\<rparr>
           else h\<lparr>use_count := (use_count h)(a := use_count h a - 1),
                  log := log h @ [Release a]\<rparr>))"

text \<open>
  \<^verbatim>\<open>lhs = rhs\<close> on shared handles: the new share is taken first, then the share that
  \<^verbatim>\<open>lhs\<close> held is given back.
\<close>

definition shared_ptr_assign :: "ptr \<Rightarrow> ptr \<Rightarrow> heap \<Rightarrow> heap" where
  "shared_ptr_assign lhs rhs h = shared_ptr_release lhs (shared_ptr_copy rhs h)"

subsection \<open>The payload shapes\<close>

text \<open>
  \<^verbatim>\<open>int\<close> is a 32-bit word read as a signed number by \<open>sint\<close>; \<^verbatim>\<open>int64_t\<close>,
  \<^verbatim>\<open>int16_t\<close> and \<^verbatim>\<open>int8_t\<close> are words of their width, and a \<^verbatim>\<open>float\<close> is its 32-bit
  pattern. \<^verbatim>\<open>StringFragment\<close>, \<^verbatim>\<open>Token::Kind\<close> and \<^verbatim>\<open>ModifiersPool::Handle\<close> are
  declared outside the header; the payloads only store and copy them, so they are plain
  values here (the specification calls the first a string, the others an enumerator and a
  small handle).
\<close>

record BlockData =
  fSymbolTable :: ptr
  fIsScope :: bool

record BoolLiteralData =
  fType :: ptr
  fValue :: bool

record EnumData =
  fTypeName :: string
  fSymbols :: ptr
  fIsBuiltin :: bool

record ExternalValueData =
  fType :: ptr
  fValue :: ptr

record FieldData =
  fName :: string
  fType :: ptr
  fOwner :: ptr
  fFieldIndex :: "32 word"

record FloatLiteralData =
  fType :: ptr
  fValue :: "32 word"

record ForStatementData =
  fSymbolTable :: ptr

record FunctionCallData =
  fType :: ptr
  fFunction :: ptr

record IntLiteralData =
  fType :: ptr
  fValue :: "64 word"

record SymbolData =
  fName :: string
  fType :: ptr

record SymbolAliasData =
  fName :: string
  fOrigSymbol :: ptr

record TypeTokenData =
  fType :: ptr
  fToken :: nat

record VariableData =
  fName :: string
  fType :: ptr
  fInitialValue :: ptr
  fModifiersHandle :: nat
  fReadCount :: "16 word"
  fWriteCount :: "16 word"
  fStorage :: "8 word"
  fBuiltin :: bool

subsection \<open>\<^verbatim>\<open>NodeData\<close>: the payload variant\<close>

datatype Kind =
    kBlock
  | kBoolLiteral
  | kEnum
  | kExternalValue
  | kField
  | kFloatLiteral
  | kForStatement
  | kFunctionCall
  | kIntLiteral
  | kString
  | kSymbol
  | kSymbolAlias
  | kType
  | kTypeToken
  | kVariable

text \<open>
  \<^verbatim>\<open>NodeData\<close> is the discriminant \<^verbatim>\<open>fKind\<close> and the union \<^verbatim>\<open>fContents\<close>. Each of its
  constructors and its assignment set the discriminant together with the member they
  build, so the pair is one value of a datatype: a constructor per union member, named by
  the member's discriminant. \<open>NodeData_Type\<close> is the member \<^verbatim>\<open>const Type* fType\<close>.
\<close>

datatype NodeData =
    NodeData_Block BlockData
  | NodeData_BoolLiteral BoolLiteralData
  | NodeData_Enum EnumData
  | NodeData_ExternalValue ExternalValueData
  | NodeData_Field FieldData
  | NodeData_FloatLiteral FloatLiteralData
  | NodeData_ForStatement ForStatementData
  | NodeData_FunctionCall FunctionCallData
  | NodeData_IntLiteral IntLiteralData
  | NodeData_String string
  | NodeData_Symbol SymbolData
  | NodeData_SymbolAlias SymbolAliasData
  | NodeData_Type ptr
  | NodeData_TypeToken TypeTokenData
  | NodeData_Variable VariableData

text \<open>The discriminant \<^verbatim>\<open>NodeData::fKind\<close>.\<close>

fun NodeData_fKind :: "NodeData \<Rightarrow> Kind" where
  "NodeData_fKind (NodeData_Block d) = kBlock"
| "NodeData_fKind (NodeData_BoolLiteral d) = kBoolLiteral"
| "NodeData_fKind (NodeData_Enum d) = kEnum"
| "NodeData_fKind (NodeData_ExternalValue d) = kExternalValue"
| "NodeData_fKind (NodeData_Field d) = kField"
| "NodeData_fKind (NodeData_FloatLiteral d) = kFloatLiteral"
| "NodeData_fKind (NodeData_ForStatement d) = kForStatement"
| "NodeData_fKind (NodeData_FunctionCall d) = kFunctionCall"
| "NodeData_fKind (NodeData_IntLiteral d) = kIntLiteral"
| "NodeData_fKind (NodeData_String d) = kString"
| "NodeData_fKind (NodeData_Symbol d) = kSymbol"
| "NodeData_fKind (NodeData_SymbolAlias d) = kSymbolAlias"
| "NodeData_fKind (NodeData_Type d) = kType"
| "NodeData_fKind (NodeData_TypeToken d) = kTypeToken"
| "NodeData_fKind (NodeData_Variable d) = kVariable"

text \<open>
  \<^verbatim>\<open>NodeData::cleanup\<close> runs the destructor of the active member. Only the shared
  handles of \<^verbatim>\<open>BlockData\<close>, \<^verbatim>\<open>EnumData\<close> and \<^verbatim>\<open>ForStatementData\<close> touch the heap; the
  other members hold values and pointers that own nothing.
\<close>

fun cleanup :: "NodeData \<Rightarrow> heap \<Rightarrow> heap" where
  "cleanup (NodeData_Block d) h = shared_ptr_release (BlockData.fSymbolTable d) h"
| "cleanup (NodeData_BoolLiteral d) h = h"
| "cleanup (NodeData_Enum d) h = shared_ptr_release (fSymbols d) h"
| "cleanup (NodeData_ExternalValue d) h = h"
| "cleanup (NodeData_Field d) h = h"
| "cleanup (NodeData_FloatLiteral d) h = h"
| "cleanup (NodeData_ForStatement d) h = shared_ptr_release (ForStatementData.fSymbolTable d) h"
| "cleanup (NodeData_FunctionCall d) h = h"
| "cleanup (NodeData_IntLiteral d) h = h"
| "cleanup (NodeData_String d) h = h"
| "cleanup (NodeData_Symbol d) h = h"
| "cleanup (NodeData_SymbolAlias d) h = h"
| "cleanup (NodeData_Type d) h = h"
| "cleanup (NodeData_TypeToken d) h = h"
| "cleanup (NodeData_Variable d) h = h"

text \<open>The shared handle that a payload holds; a payload of any other shape holds none.\<close>

fun payload_handle :: "NodeData \<Rightarrow> ptr" where
  "payload_handle (NodeData_Block d) = BlockData.fSymbolTable d"
| "payload_handle (NodeData_Enum d) = fSymbols d"
| "payload_handle (NodeData_ForStatement d) = ForStatementData.fSymbolTable d"
| "payload_handle d = Null"

text \<open>
  An assignment operator of the header receives two references, \<^verbatim>\<open>this\<close> and \<^verbatim>\<open>other\<close>,
  and has no test that keeps them apart: they refer to two objects, or both to the one
  object that is assigned to. The object behind \<^verbatim>\<open>this\<close> is passed as a value and
  returned updated. The reference \<^verbatim>\<open>other\<close> is an operand: \<open>Same\<close> when it refers to the
  object behind \<^verbatim>\<open>this\<close>, and \<open>Distinct v\<close> when it refers to another object, which holds
  \<open>v\<close> and which the assignment does not change. \<open>referent other cur\<close> is what a read
  through \<^verbatim>\<open>other\<close> finds at a moment when the object behind \<^verbatim>\<open>this\<close> holds \<open>cur\<close>.
\<close>

datatype 'a operand = Same | Distinct 'a

definition referent :: "'a operand \<Rightarrow> 'a \<Rightarrow> 'a" where
  "referent other cur = (case other of Same \<Rightarrow> cur | Distinct v \<Rightarrow> v)"

text \<open>
  Placement \<^verbatim>\<open>new\<close> default-initialises the member that it builds. This writes null into
  a shared handle and into \<^verbatim>\<open>fInitialValue\<close>, which has a default member initialiser, and
  it makes a \<^verbatim>\<open>String\<close> empty. It writes nothing into the other scalar and pointer
  fields, and what it writes into a \<^verbatim>\<open>StringFragment\<close> or a \<^verbatim>\<open>ModifiersPool::Handle\<close>
  is decided by constructors that are declared outside the header. A value of
  \<open>uninitialized\<close> stands for everything that is not written or not known to be: it
  gives, for each member of the union, the values that those fields turn out to have.
  \<^verbatim>\<open>ForStatementData\<close> and \<^verbatim>\<open>String\<close> have no such field.
\<close>

record uninitialized =
  asBlock :: BlockData
  asBoolLiteral :: BoolLiteralData
  asEnum :: EnumData
  asExternalValue :: ExternalValueData
  asField :: FieldData
  asFloatLiteral :: FloatLiteralData
  asFunctionCall :: FunctionCallData
  asIntLiteral :: IntLiteralData
  asSymbol :: SymbolData
  asSymbolAlias :: SymbolAliasData
  asType :: ptr
  asTypeToken :: TypeTokenData
  asVariable :: VariableData

fun placement_new :: "Kind \<Rightarrow> uninitialized \<Rightarrow> NodeData" where
  "placement_new kBlock u = NodeData_Block ((asBlock u)\<lparr>BlockData.fSymbolTable := Null\<rparr>)"
| "placement_new kBoolLiteral u = NodeData_BoolLiteral (asBoolLiteral u)"
| "placement_new kEnum u = NodeData_Enum ((asEnum u)\<lparr>fSymbols := Null\<rparr>)"
| "placement_new kExternalValue u = NodeData_ExternalValue (asExternalValue u)"
| "placement_new kField u = NodeData_Field (asField u)"
| "placement_new kFloatLiteral u = NodeData_FloatLiteral (asFloatLiteral u)"
| "placement_new kForStatement u = NodeData_ForStatement \<lparr>fSymbolTable = Null\<rparr>"
| "placement_new kFunctionCall u = NodeData_FunctionCall (asFunctionCall u)"
| "placement_new kIntLiteral u = NodeData_IntLiteral (asIntLiteral u)"
| "placement_new kString u = NodeData_String []"
| "placement_new kSymbol u = NodeData_Symbol (asSymbol u)"
| "placement_new kSymbolAlias u = NodeData_SymbolAlias (asSymbolAlias u)"
| "placement_new kType u = NodeData_Type (asType u)"
| "placement_new kTypeToken u = NodeData_TypeToken (asTypeToken u)"
| "placement_new kVariable u = NodeData_Variable ((asVariable u)\<lparr>fInitialValue := Null\<rparr>)"

text \<open>
  The assignment \<^verbatim>\<open>*fresh = member\<close> at the end of a branch of the switch, where
  \<open>fresh\<close> is the member that placement \<^verbatim>\<open>new\<close> has just built and \<open>member\<close> is what
  \<^verbatim>\<open>other.fContents\<close> holds at that moment. It is the implicit memberwise assignment of
  the member's type: every field is copied as a value, and a shared handle is assigned as
  shared handles are.
\<close>

fun assign_member :: "NodeData \<Rightarrow> NodeData \<Rightarrow> heap \<Rightarrow> NodeData \<times> heap" where
  "assign_member fresh (NodeData_Block d) h =
     (NodeData_Block d,
      shared_ptr_assign (payload_handle fresh) (BlockData.fSymbolTable d) h)"
| "assign_member fresh (NodeData_BoolLiteral d) h = (NodeData_BoolLiteral d, h)"
| "assign_member fresh (NodeData_Enum d) h =
     (NodeData_Enum d, shared_ptr_assign (payload_handle fresh) (fSymbols d) h)"
| "assign_member fresh (NodeData_ExternalValue d) h = (NodeData_ExternalValue d, h)"
| "assign_member fresh (NodeData_Field d) h = (NodeData_Field d, h)"
| "assign_member fresh (NodeData_FloatLiteral d) h = (NodeData_FloatLiteral d, h)"
| "assign_member fresh (NodeData_ForStatement d) h =
     (NodeData_ForStatement d,
      shared_ptr_assign (payload_handle fresh) (ForStatementData.fSymbolTable d) h)"
| "assign_member fresh (NodeData_FunctionCall d) h = (NodeData_FunctionCall d, h)"
| "assign_member fresh (NodeData_IntLiteral d) h = (NodeData_IntLiteral d, h)"
| "assign_member fresh (NodeData_String d) h = (NodeData_String d, h)"
| "assign_member fresh (NodeData_Symbol d) h = (NodeData_Symbol d, h)"
| "assign_member fresh (NodeData_SymbolAlias d) h = (NodeData_SymbolAlias d, h)"
| "assign_member fresh (NodeData_Type d) h = (NodeData_Type d, h)"
| "assign_member fresh (NodeData_TypeToken d) h = (NodeData_TypeToken d, h)"
| "assign_member fresh (NodeData_Variable d) h = (NodeData_Variable d, h)"

text \<open>
  \<^verbatim>\<open>NodeData::operator=\<close>, statement by statement. \<^verbatim>\<open>this->cleanup()\<close> destroys the
  active member of \<open>this\<close>. \<^verbatim>\<open>fKind = other.fKind\<close> reads the discriminant of \<open>other\<close>,
  which \<^verbatim>\<open>cleanup\<close> has not changed. The branch of the switch for that discriminant
  builds a fresh member in the union of \<open>this\<close> and then assigns to it what a read through
  \<open>other\<close> finds: the member of the other object, or, when \<open>other\<close> is the object itself,
  the fresh member that has just replaced the destroyed one.
\<close>

definition NodeData_assign ::
  "uninitialized \<Rightarrow> NodeData \<Rightarrow> NodeData operand \<Rightarrow> heap \<Rightarrow> NodeData \<times> heap" where
  "NodeData_assign u this other h =
     (let h1 = cleanup this h;
          k = NodeData_fKind (referent other this);
          fresh = placement_new k u
      in assign_member fresh (referent other fresh) h1)"

text \<open>
  The copy constructor \<^verbatim>\<open>NodeData(const NodeData& other) { *this = other; }\<close>. The new
  object starts with the default discriminant \<^verbatim>\<open>kType\<close> and a union that nothing has
  written, of which \<open>uninit\<close> gives the values; \<open>other\<close> is an object that existed before,
  so it is not the new one.
\<close>

definition NodeData_copy :: "uninitialized \<Rightarrow> NodeData \<Rightarrow> heap \<Rightarrow> NodeData \<times> heap" where
  "NodeData_copy uninit other h =
     NodeData_assign uninit (NodeData_Type (asType uninit)) (Distinct other) h"

subsection \<open>\<^verbatim>\<open>IRNode\<close>\<close>

text \<open>
  The fields of \<^verbatim>\<open>IRNode\<close> in the order of the header. A child is owned through a
  \<^verbatim>\<open>std::unique_ptr\<close>, which is null (\<open>None\<close>) or holds the child (\<open>Some\<close>);
  \<^verbatim>\<open>Expression\<close> and \<^verbatim>\<open>Statement\<close> are the node subtypes that the specification builds on
  this node, so a child is a node.
\<close>

datatype IRNode =
  IRNode (fOffset: "32 word") (fKind: "32 word") (fData: NodeData)
    (fExpressionChildren: "IRNode option list") (fStatementChildren: "IRNode option list")


definition boolLiteralData :: "IRNode \<Rightarrow> fault + BoolLiteralData" where
  "boolLiteralData n =
     SkASSERT (NodeData_fKind (fData n) = kBoolLiteral)
       (case fData n of NodeData_BoolLiteral d \<Rightarrow> Inr d | _ \<Rightarrow> Inl AssertionFailed)"

definition enumData :: "IRNode \<Rightarrow> fault + EnumData" where
  "enumData n =
     SkASSERT (NodeData_fKind (fData n) = kEnum)
       (case fData n of NodeData_Enum d \<Rightarrow> Inr d | _ \<Rightarrow> Inl AssertionFailed)"

definition externalValueData :: "IRNode \<Rightarrow> fault + ExternalValueData" where
  "externalValueData n =
     SkASSERT (NodeData_fKind (fData n) = kExternalValue)
       (case fData n of NodeData_ExternalValue d \<Rightarrow> Inr d | _ \<Rightarrow> Inl AssertionFailed)"

definition fieldData :: "IRNode \<Rightarrow> fault + FieldData" where
  "fieldData n =
     SkASSERT (NodeData_fKind (fData n) = kField)
       (case fData n of NodeData_Field d \<Rightarrow> Inr d | _ \<Rightarrow> Inl AssertionFailed)"

definition floatLiteralData :: "IRNode \<Rightarrow> fault + FloatLiteralData" where
  "floatLiteralData n =
     SkASSERT (NodeData_fKind (fData n) = kFloatLiteral)
       (case fData n of NodeData_FloatLiteral d \<Rightarrow> Inr d | _ \<Rightarrow> Inl AssertionFailed)"

definition forStatementData :: "IRNode \<Rightarrow> fault + ForStatementData" where
  "forStatementData n =
     SkASSERT (NodeData_fKind (fData n) = kForStatement)
       (case fData n of NodeData_ForStatement d \<Rightarrow> Inr d | _ \<Rightarrow> Inl AssertionFailed)"

definition functionCallData :: "IRNode \<Rightarrow> fault + FunctionCallData" where
  "functionCallData n =
     SkASSERT (NodeData_fKind (fData n) = kFunctionCall)
       (case fData n of NodeData_FunctionCall d \<Rightarrow> Inr d | _ \<Rightarrow> Inl AssertionFailed)"

definition intLiteralData :: "IRNode \<Rightarrow> fault + IntLiteralData" where
  "intLiteralData n =
     SkASSERT (NodeData_fKind (fData n) = kIntLiteral)
       (case fData n of NodeData_IntLiteral d \<Rightarrow> Inr d | _ \<Rightarrow> Inl AssertionFailed)"

definition stringData :: "IRNode \<Rightarrow> fault + string" where
  "stringData n =
     SkASSERT (NodeData_fKind (fData n) = kString)
       (case fData n of NodeData_String d \<Rightarrow> Inr d | _ \<Rightarrow> Inl AssertionFailed)"

definition symbolData :: "IRNode \<Rightarrow> fault + SymbolData" where
  "symbolData n =
     SkASSERT (NodeData_fKind (fData n) = kSymbol)
       (case fData n of NodeData_Symbol d \<Rightarrow> Inr d | _ \<Rightarrow> Inl AssertionFailed)"

definition symbolAliasData :: "IRNode \<Rightarrow> fault + SymbolAliasData" where
  "symbolAliasData n =
     SkASSERT (NodeData_fKind (fData n) = kSymbolAlias)
       (case fData n of NodeData_SymbolAlias d \<Rightarrow> Inr d | _ \<Rightarrow> Inl AssertionFailed)"

definition typeData :: "IRNode \<Rightarrow> fault + ptr" where
  "typeData n =
     SkASSERT (NodeData_fKind (fData n) = kType)
       (case fData n of NodeData_Type d \<Rightarrow> Inr d | _ \<Rightarrow> Inl AssertionFailed)"

definition typeTokenData :: "IRNode \<Rightarrow> fault + TypeTokenData" where
  "typeTokenData n =
     SkASSERT (NodeData_fKind (fData n) = kTypeToken)
       (case fData n of NodeData_TypeToken d \<Rightarrow> Inr d | _ \<Rightarrow> Inl AssertionFailed)"

definition variableData :: "IRNode \<Rightarrow> fault + VariableData" where
  "variableData n =
     SkASSERT (NodeData_fKind (fData n) = kVariable)
       (case fData n of NodeData_Variable d \<Rightarrow> Inr d | _ \<Rightarrow> Inl AssertionFailed)"

text \<open>
  \<^verbatim>\<open>IRNode::type\<close>: a switch on the payload's discriminant; each of the ten cases reads
  the payload through its accessor and dereferences the stored pointer, and the default
  case is \<^verbatim>\<open>SkUNREACHABLE\<close>. The result is the reference to the \<^verbatim>\<open>Type\<close> object.
\<close>

definition type :: "IRNode \<Rightarrow> fault + addr" where
  "type n =
     (case NodeData_fKind (fData n) of
        kBoolLiteral \<Rightarrow> and_then (boolLiteralData n) (\<lambda>d. deref (BoolLiteralData.fType d))
      | kExternalValue \<Rightarrow>
          and_then (externalValueData n) (\<lambda>d. deref (ExternalValueData.fType d))
      | kField \<Rightarrow> and_then (fieldData n) (\<lambda>d. deref (FieldData.fType d))
      | kFloatLiteral \<Rightarrow> and_then (floatLiteralData n) (\<lambda>d. deref (FloatLiteralData.fType d))
      | kFunctionCall \<Rightarrow> and_then (functionCallData n) (\<lambda>d. deref (FunctionCallData.fType d))
      | kIntLiteral \<Rightarrow> and_then (intLiteralData n) (\<lambda>d. deref (IntLiteralData.fType d))
      | kSymbol \<Rightarrow> and_then (symbolData n) (\<lambda>d. deref (SymbolData.fType d))
      | kType \<Rightarrow> and_then (typeData n) deref
      | kTypeToken \<Rightarrow> and_then (typeTokenData n) (\<lambda>d. deref (TypeTokenData.fType d))
      | kVariable \<Rightarrow> and_then (variableData n) (\<lambda>d. deref (VariableData.fType d))
      | _ \<Rightarrow> SkUNREACHABLE)"

subsection \<open>Child storage\<close>

text \<open>
  \<^verbatim>\<open>(int) v.size()\<close>: the size of a vector converted to a 32-bit \<^verbatim>\<open>int\<close>.
\<close>

definition size_as_int :: "'a list \<Rightarrow> 32 word" where
  "size_as_int v = word_of_nat (length v)"

text \<open>\<^verbatim>\<open>*p\<close> for a \<^verbatim>\<open>std::unique_ptr\<close>: the child, or a fault when the pointer is null.\<close>

definition unique_ptr_deref :: "'a option \<Rightarrow> fault + 'a" where
  "unique_ptr_deref p = (case p of None \<Rightarrow> Inl NullDereference | Some c \<Rightarrow> Inr c)"

definition expressionChild :: "IRNode \<Rightarrow> 32 word \<Rightarrow> fault + IRNode" where
  "expressionChild n index =
     SkASSERT (0 \<le> sint index \<and> sint index < sint (size_as_int (fExpressionChildren n)))
       (unique_ptr_deref (fExpressionChildren n ! unat index))"


definition expressionChildCount :: "IRNode \<Rightarrow> 32 word" where
  "expressionChildCount n = size_as_int (fExpressionChildren n)"

definition statementChild :: "IRNode \<Rightarrow> 32 word \<Rightarrow> fault + IRNode" where
  "statementChild n index =
     SkASSERT (0 \<le> sint index \<and> sint index < sint (size_as_int (fStatementChildren n)))
       (unique_ptr_deref (fStatementChildren n ! unat index))"


definition statementChildCount :: "IRNode \<Rightarrow> 32 word" where
  "statementChildCount n = size_as_int (fStatementChildren n)"

subsection \<open>Copy assignment of a node\<close>

text \<open>
  \<^verbatim>\<open>IRNode::operator=\<close>: the assertion on the expression children of \<open>other\<close>, then the
  three member assignments. \<open>other\<close> is an operand as above, and \<^verbatim>\<open>other.fData\<close> is the
  payload of the node itself exactly when \<open>other\<close> is the node itself. The two child
  vectors of \<open>this\<close> are not assigned.
\<close>

definition IRNode_assign ::
  "uninitialized \<Rightarrow> IRNode \<Rightarrow> IRNode operand \<Rightarrow> heap \<Rightarrow> fault + IRNode \<times> heap" where
  "IRNode_assign u this other h =
     SkASSERT (fExpressionChildren (referent other this) = [])
       (case NodeData_assign u (fData this) (map_operand fData other) h of
          (d, h') \<Rightarrow>
            Inr (IRNode (fOffset (referent other this)) (fKind (referent other this)) d
                   (fExpressionChildren this) (fStatementChildren this), h'))"

subsection \<open>Destruction\<close>

text \<open>
  Modelled from the spec: the body of \<^verbatim>\<open>IRNode::~IRNode\<close> is defined outside the header,
  and so are the destructors of the subtypes \<^verbatim>\<open>Statement\<close> and \<^verbatim>\<open>Expression\<close>. Section
  4.2 of the specification gives the destruction of a node as the teardown of its fields
  and nothing else, so the body is empty and a child is destroyed as a node. The fields are
  then destroyed in the reverse of their order in the header: \<^verbatim>\<open>fStatementChildren\<close>,
  \<^verbatim>\<open>fExpressionChildren\<close>, \<^verbatim>\<open>fData\<close> (whose destructor is \<^verbatim>\<open>cleanup\<close>), and the two
  integers. A vector destroys its elements from the first to the last, and a
  \<^verbatim>\<open>std::unique_ptr\<close> destroys the child it holds, if any.
\<close>

fun destroy :: "IRNode \<Rightarrow> heap \<Rightarrow> heap"
  and destroy_children :: "IRNode option list \<Rightarrow> heap \<Rightarrow> heap" where
  "destroy (IRNode off k d es ss) h = cleanup d (destroy_children es (destroy_children ss h))"
| "destroy_children [] h = h"
| "destroy_children (None # cs) h = destroy_children cs h"
| "destroy_children (Some c # cs) h = destroy_children cs (destroy c h)"

text \<open>
  The number of handles to the table at \<open>a\<close> that a tree of nodes holds. It is used to
  state how many shares the heap must have.
\<close>

fun handles :: "IRNode \<Rightarrow> addr \<Rightarrow> nat"
  and handles_children :: "IRNode option list \<Rightarrow> addr \<Rightarrow> nat" where
  "handles (IRNode off k d es ss) a =
     (if payload_handle d = Ptr a then 1 else 0) + handles_children es a + handles_children ss a"
| "handles_children [] a = 0"
| "handles_children (None # cs) a = handles_children cs a"
| "handles_children (Some c # cs) a = handles c a + handles_children cs a"

text \<open>The events that a heap \<open>h'\<close> has logged since it was \<open>h\<close>.\<close>

definition log_since :: "heap \<Rightarrow> heap \<Rightarrow> event list" where
  "log_since h h' = drop (length (log h)) (log h')"

subsection \<open>The operations that change a node\<close>



subsection \<open>The dead-code predicate on a variable\<close>



subsection \<open>The default argument of the type-reference constructor\<close>

text \<open>
  \<^verbatim>\<open>IRNode(int offset, int kind, const Type* data = nullptr)\<close>: the pointer that the
  payload constructor \<^verbatim>\<open>NodeData(const Type* data)\<close> receives when the caller gives none.
\<close>

definition default_type_data :: ptr where
  "default_type_data = Null"

subsection \<open>Concrete nodes and heaps\<close>

text \<open>
  Values for the fields that placement \<^verbatim>\<open>new\<close> leaves alone, where a concrete run needs
  them.
\<close>

definition blank :: uninitialized where
  "blank =
     \<lparr>asBlock = \<lparr>BlockData.fSymbolTable = Null, fIsScope = False\<rparr>,
      asBoolLiteral = \<lparr>BoolLiteralData.fType = Null, fValue = False\<rparr>,
      asEnum = \<lparr>fTypeName = [], fSymbols = Null, fIsBuiltin = False\<rparr>,
      asExternalValue = \<lparr>ExternalValueData.fType = Null, fValue = Null\<rparr>,
      asField = \<lparr>FieldData.fName = [], fType = Null, fOwner = Null, fFieldIndex = 0\<rparr>,
      asFloatLiteral = \<lparr>FloatLiteralData.fType = Null, fValue = 0\<rparr>,
      asFunctionCall = \<lparr>FunctionCallData.fType = Null, fFunction = Null\<rparr>,
      asIntLiteral = \<lparr>IntLiteralData.fType = Null, fValue = 0\<rparr>,
      asSymbol = \<lparr>SymbolData.fName = [], fType = Null\<rparr>,
      asSymbolAlias = \<lparr>SymbolAliasData.fName = [], fOrigSymbol = Null\<rparr>,
      asType = Null,
      asTypeToken = \<lparr>TypeTokenData.fType = Null, fToken = 0\<rparr>,
      asVariable =
        \<lparr>fName = [], fType = Null, fInitialValue = Null, fModifiersHandle = 0,
         fReadCount = 0, fWriteCount = 0, fStorage = 0, fBuiltin = False\<rparr>\<rparr>"

text \<open>A heap without tables, and a heap with one table, at 7, that has a single share.\<close>

definition last_share_heap :: heap where
  "last_share_heap = \<lparr>use_count = (\<lambda>a. if a = 7 then 1 else 0), log = []\<rparr>"


definition empty_heap :: heap where
  "empty_heap = \<lparr>use_count = (\<lambda>a. 0), log = []\<rparr>"

text \<open>
  Scenario B of the specification: a block that is a real scope, with a handle to the
  table at 7 and three statement children. The first child is a nested block on the same
  table, the second a \<^verbatim>\<open>for\<close> header with a table of its own at 9, the third an integer
  literal. The heap holds the two shares of table 7 and the one share of table 9.
\<close>

definition scenario_B_children :: "IRNode option list" where
  "scenario_B_children =
     [Some (IRNode 10 1 (NodeData_Block \<lparr>BlockData.fSymbolTable = Ptr 7, fIsScope = False\<rparr>) [] []),
      Some (IRNode 20 2 (NodeData_ForStatement \<lparr>fSymbolTable = Ptr 9\<rparr>) [] []),
      Some (IRNode 30 3 (NodeData_IntLiteral \<lparr>IntLiteralData.fType = Ptr 1, fValue = 42\<rparr>) [] [])]"

definition scenario_B_block :: IRNode where
  "scenario_B_block =
     IRNode 0 1 (NodeData_Block \<lparr>BlockData.fSymbolTable = Ptr 7, fIsScope = True\<rparr>) []
       scenario_B_children"

definition scenario_B_heap :: heap where
  "scenario_B_heap =
     \<lparr>use_count = (\<lambda>a. if a = 7 then 2 else if a = 9 then 1 else 0), log = []\<rparr>"

text \<open>
  A type-reference node, a string node, and a node with two expression slots, the second
  of them null, and one statement child.
\<close>

definition type_node :: IRNode where
  "type_node = IRNode 1 13 (NodeData_Type (Ptr 5)) [] []"

definition string_node :: IRNode where
  "string_node = IRNode 2 9 (NodeData_String ''abc'') [] []"

definition parent_node :: IRNode where
  "parent_node = IRNode 3 4 (NodeData_Type (Ptr 5)) [Some type_node, None] [Some string_node]"

section \<open>Properties\<close>

subsection \<open>Facts about words, handles and the payload variant\<close>

lemma sint_nonneg_uint:
  fixes w :: "32 word"
  assumes "0 \<le> sint w"
  shows "uint w = sint w"
proof -
  have "sint w < 2 ^ 31"
    using sint_lt [of w] by simp
  then have "sint w < 2 ^ 32"
    by simp
  then have "take_bit 32 (sint w) = sint w"
    using assms by (simp add: take_bit_int_eq_self)
  then show ?thesis
    using uint_sint [of w] by simp
qed

lemma sint_nonneg_bound:
  fixes i :: "32 word"
  assumes "0 \<le> sint i" "sint i < sint (word_of_nat n :: 32 word)"
  shows "unat i < n"
proof -
  have a: "uint i = sint i"
    using assms(1) by (rule sint_nonneg_uint)
  have "0 \<le> sint (word_of_nat n :: 32 word)"
    using assms by linarith
  then have b: "uint (word_of_nat n :: 32 word) = sint (word_of_nat n :: 32 word)"
    by (rule sint_nonneg_uint)
  have "unat (word_of_nat n :: 32 word) \<le> n"
    by (simp add: unat_of_nat)
  then have c: "uint (word_of_nat n :: 32 word) \<le> int n"
    by (simp add: unat_eq_nat_uint nat_le_iff del: nat_uint_eq)
  have "uint i < int n"
    using assms(2) a b c by linarith
  then show ?thesis
    by (simp add: unat_eq_nat_uint nat_less_iff del: nat_uint_eq)
qed

lemma small_unat:
  assumes "n < 2 ^ 31"
  shows "unat (word_of_nat n :: 32 word) = n"
  using assms by (simp add: unat_of_nat)

lemma small_sint:
  assumes "n < 2 ^ 31"
  shows "sint (word_of_nat n :: 32 word) = int n"
proof -
  have "signed_take_bit 31 (int n) = int n"
    using assms by (simp add: signed_take_bit_int_eq_self)
  then show ?thesis
    by (simp add: signed_of_nat)
qed

lemma cleanup_eq: "cleanup d h = shared_ptr_release (payload_handle d) h"
  by (cases d) (simp_all add: shared_ptr_release_def)


lemma placement_new_handle: "payload_handle (placement_new k u) = Null"
  by (cases k) simp_all

lemma assign_member_fresh:
  "payload_handle fresh = Null \<Longrightarrow>
     assign_member fresh member h = (member, shared_ptr_copy (payload_handle member) h)"
  by (cases member)
    (simp_all add: shared_ptr_assign_def shared_ptr_release_def shared_ptr_copy_def)

lemma NodeData_assign_Distinct:
  "NodeData_assign u this (Distinct other) h =
     (other, shared_ptr_copy (payload_handle other) (cleanup this h))"
  by (simp add: NodeData_assign_def referent_def Let_def assign_member_fresh
      placement_new_handle)

lemma NodeData_assign_Same:
  "NodeData_assign u this Same h = (placement_new (NodeData_fKind this) u, cleanup this h)"
  by (simp add: NodeData_assign_def referent_def Let_def assign_member_fresh
      placement_new_handle shared_ptr_copy_def)

lemma release_count:
  "use_count (shared_ptr_release p h) a =
     (if p = Ptr a then use_count h a - 1 else use_count h a)"
  by (cases p) (auto simp: shared_ptr_release_def)

lemma release_log:
  "log (shared_ptr_release p h) =
     log h @ (case p of Null \<Rightarrow> []
              | Ptr b \<Rightarrow> Release b # (if use_count h b \<le> 1 then [TableDestroyed b] else []))"
  by (cases p) (auto simp: shared_ptr_release_def)

lemma copy_count:
  "use_count (shared_ptr_copy p h) =
     (case p of Null \<Rightarrow> use_count h | Ptr a \<Rightarrow> (use_count h)(a := Suc (use_count h a)))"
  by (cases p) (simp_all add: shared_ptr_copy_def)

lemma copy_log:
  "log (shared_ptr_copy p h) = log h @ (case p of Null \<Rightarrow> [] | Ptr a \<Rightarrow> [Acquire a])"
  by (cases p) (simp_all add: shared_ptr_copy_def)

subsection \<open>Facts about destruction\<close>

lemma destroy_count:
  "handles n a \<le> use_count h a \<Longrightarrow> use_count (destroy n h) a = use_count h a - handles n a"
  "handles_children cs a \<le> use_count h a \<Longrightarrow>
     use_count (destroy_children cs h) a = use_count h a - handles_children cs a"
proof (induction n h and cs h rule: destroy_destroy_children.induct)
  case (1 off k d es ss h)
  then show ?case
    by (simp add: cleanup_eq release_count add.commute)
next
  case (2 h)
  then show ?case by simp
next
  case (3 cs h)
  then show ?case by simp
next
  case (4 c cs h)
  then show ?case by simp
qed

lemma destroy_extends_log:
  "\<exists>L. log (destroy n h) = log h @ L"
  "\<exists>L. log (destroy_children cs h) = log h @ L"
proof (induction n h and cs h rule: destroy_destroy_children.induct)
  case (1 off k d es ss h)
  then show ?case
    by (auto simp: cleanup_eq release_log)
next
  case (2 h)
  then show ?case by simp
next
  case (3 cs h)
  then show ?case by simp
next
  case (4 c cs h)
  then show ?case by auto
qed

lemma destroy_keeps_table:
  "handles n a < use_count h a \<Longrightarrow>
     \<exists>L. log (destroy n h) = log h @ L \<and> TableDestroyed a \<notin> set L"
  "handles_children cs a < use_count h a \<Longrightarrow>
     \<exists>L. log (destroy_children cs h) = log h @ L \<and> TableDestroyed a \<notin> set L"
proof (induction n h and cs h rule: destroy_destroy_children.induct)
  case (1 off k d es ss h)
  let ?h1 = "destroy_children ss h"
  let ?h2 = "destroy_children es ?h1"
  from "1.prems" have ss: "handles_children ss a < use_count h a"
    and es: "handles_children es a + handles_children ss a < use_count h a"
    by simp_all
  from "1.IH"(1) [OF ss] obtain L1
    where L1: "log ?h1 = log h @ L1" "TableDestroyed a \<notin> set L1"
    by blast
  have c1: "use_count ?h1 a = use_count h a - handles_children ss a"
    using ss by (simp add: destroy_count(2))
  with es have es': "handles_children es a < use_count ?h1 a"
    by simp
  from "1.IH"(2) [OF es'] obtain L2
    where L2: "log ?h2 = log ?h1 @ L2" "TableDestroyed a \<notin> set L2"
    by blast
  have c2: "use_count ?h2 a = use_count ?h1 a - handles_children es a"
    using es' by (simp add: destroy_count(2))
  have last: "payload_handle d = Ptr a \<Longrightarrow> 1 < use_count ?h2 a"
    using "1.prems" c1 c2 by simp
  have "\<exists>L3. log (cleanup d ?h2) = log ?h2 @ L3 \<and> TableDestroyed a \<notin> set L3"
    using last by (cases "payload_handle d") (auto simp: cleanup_eq release_log)
  then obtain L3
    where L3: "log (cleanup d ?h2) = log ?h2 @ L3" "TableDestroyed a \<notin> set L3"
    by blast
  show ?case
    using L1 L2 L3 by simp
next
  case (2 h)
  then show ?case by simp
next
  case (3 cs h)
  then show ?case by simp
next
  case (4 c cs h)
  from "4.prems" have c: "handles c a < use_count h a"
    by simp
  from "4.IH"(1) [OF c] obtain L1
    where L1: "log (destroy c h) = log h @ L1" "TableDestroyed a \<notin> set L1"
    by blast
  have "use_count (destroy c h) a = use_count h a - handles c a"
    using c by (simp add: destroy_count(1))
  with "4.prems" have "handles_children cs a < use_count (destroy c h) a"
    by simp
  from "4.IH"(2) [OF this] obtain L2
    where L2: "log (destroy_children cs (destroy c h)) = log (destroy c h) @ L2"
      "TableDestroyed a \<notin> set L2"
    by blast
  show ?case
    using L1 L2 by simp
qed

subsection \<open>Facts about the child accessors\<close>

lemma expressionChild_in_range:
  assumes "0 \<le> sint i \<and> sint i < sint (expressionChildCount (IRNode off k d es ss))"
  shows "unat i < length es"
    and "expressionChild (IRNode off k d es ss) i = unique_ptr_deref (es ! unat i)"
proof -
  from assms have r: "0 \<le> sint i" "sint i < sint (word_of_nat (length es) :: 32 word)"
    by (simp_all add: expressionChildCount_def size_as_int_def)
  from r show "unat i < length es"
    by (rule sint_nonneg_bound)
  from r show "expressionChild (IRNode off k d es ss) i = unique_ptr_deref (es ! unat i)"
    by (simp add: expressionChild_def SkASSERT_def size_as_int_def)
qed

lemma expressionChild_out_of_range:
  assumes "\<not> (0 \<le> sint i \<and> sint i < sint (expressionChildCount (IRNode off k d es ss)))"
  shows "expressionChild (IRNode off k d es ss) i = Inl AssertionFailed"
proof -
  from assms have "\<not> (0 \<le> sint i \<and> sint i < sint (word_of_nat (length es) :: 32 word))"
    by (simp add: expressionChildCount_def size_as_int_def)
  then show ?thesis
    unfolding expressionChild_def SkASSERT_def size_as_int_def by auto
qed

lemma statementChild_in_range:
  assumes "0 \<le> sint i \<and> sint i < sint (statementChildCount (IRNode off k d es ss))"
  shows "unat i < length ss"
    and "statementChild (IRNode off k d es ss) i = unique_ptr_deref (ss ! unat i)"
proof -
  from assms have r: "0 \<le> sint i" "sint i < sint (word_of_nat (length ss) :: 32 word)"
    by (simp_all add: statementChildCount_def size_as_int_def)
  from r show "unat i < length ss"
    by (rule sint_nonneg_bound)
  from r show "statementChild (IRNode off k d es ss) i = unique_ptr_deref (ss ! unat i)"
    by (simp add: statementChild_def SkASSERT_def size_as_int_def)
qed

lemma statementChild_out_of_range:
  assumes "\<not> (0 \<le> sint i \<and> sint i < sint (statementChildCount (IRNode off k d es ss)))"
  shows "statementChild (IRNode off k d es ss) i = Inl AssertionFailed"
proof -
  from assms have "\<not> (0 \<le> sint i \<and> sint i < sint (word_of_nat (length ss) :: 32 word))"
    by (simp add: statementChildCount_def size_as_int_def)
  then show ?thesis
    unfolding statementChild_def SkASSERT_def size_as_int_def by auto
qed

lemma expressionChild_position:
  assumes "j < length es \<and> length es < 2 ^ 31"
  shows "expressionChild (IRNode off k d es ss) (word_of_nat j) = unique_ptr_deref (es ! j)"
proof -
  from assms have j: "j < 2 ^ 31" and n: "length es < 2 ^ 31" and jn: "j < length es"
    by simp_all
  have "sint (word_of_nat j :: 32 word) = int j"
    using j by (rule small_sint)
  moreover have "sint (word_of_nat (length es) :: 32 word) = int (length es)"
    using n by (rule small_sint)
  moreover have "unat (word_of_nat j :: 32 word) = j"
    using j by (rule small_unat)
  ultimately show ?thesis
    using jn unfolding expressionChild_def SkASSERT_def size_as_int_def by simp
qed

lemma statementChild_position:
  assumes "j < length ss \<and> length ss < 2 ^ 31"
  shows "statementChild (IRNode off k d es ss) (word_of_nat j) = unique_ptr_deref (ss ! j)"
proof -
  from assms have j: "j < 2 ^ 31" and n: "length ss < 2 ^ 31" and jn: "j < length ss"
    by simp_all
  have "sint (word_of_nat j :: 32 word) = int j"
    using j by (rule small_sint)
  moreover have "sint (word_of_nat (length ss) :: 32 word) = int (length ss)"
    using n by (rule small_sint)
  moreover have "unat (word_of_nat j :: 32 word) = j"
    using j by (rule small_unat)
  ultimately show ?thesis
    using jn unfolding statementChild_def SkASSERT_def size_as_int_def by simp
qed

lemma children_independent:
  "statementChild (IRNode off k d es ss) i = statementChild (IRNode off' k' d' es' ss) i"
  "expressionChild (IRNode off k d es ss) i = expressionChild (IRNode off' k' d' es ss') i"
  unfolding statementChild_def expressionChild_def by simp_all

subsection \<open>Type resolution\<close>

text \<open>
  Claim C2. For each of the ten shapes that carry a type (BoolLiteral, ExternalBinding,
  Field, FloatLiteral, FunctionCall, IntLiteral, Symbol, TypeReference, TypeToken,
  Variable), a node whose payload has that shape and stores the pointer to the type \<open>T\<close>,
  whatever its other fields, its offset, its kind and its children are, answers \<open>type()\<close>
  with exactly \<open>T\<close>. For each of the five other shapes (Block, Enum, ForHeader,
  StringLiteral, SymbolAlias) \<open>type()\<close> faults in the unreachable default case and returns
  no reference at all.
\<close>

theorem type_returns_stored_type:
  "type (IRNode off k (NodeData_BoolLiteral (d1\<lparr>BoolLiteralData.fType := Ptr T\<rparr>)) es ss) = Inr T
 \<and> type (IRNode off k (NodeData_ExternalValue (d2\<lparr>ExternalValueData.fType := Ptr T\<rparr>)) es ss)
      = Inr T
 \<and> type (IRNode off k (NodeData_Field (d3\<lparr>FieldData.fType := Ptr T\<rparr>)) es ss) = Inr T
 \<and> type (IRNode off k (NodeData_FloatLiteral (d4\<lparr>FloatLiteralData.fType := Ptr T\<rparr>)) es ss)
      = Inr T
 \<and> type (IRNode off k (NodeData_FunctionCall (d5\<lparr>FunctionCallData.fType := Ptr T\<rparr>)) es ss)
      = Inr T
 \<and> type (IRNode off k (NodeData_IntLiteral (d6\<lparr>IntLiteralData.fType := Ptr T\<rparr>)) es ss) = Inr T
 \<and> type (IRNode off k (NodeData_Symbol (d7\<lparr>SymbolData.fType := Ptr T\<rparr>)) es ss) = Inr T
 \<and> type (IRNode off k (NodeData_Type (Ptr T)) es ss) = Inr T
 \<and> type (IRNode off k (NodeData_TypeToken (d8\<lparr>TypeTokenData.fType := Ptr T\<rparr>)) es ss) = Inr T
 \<and> type (IRNode off k (NodeData_Variable (d9\<lparr>VariableData.fType := Ptr T\<rparr>)) es ss) = Inr T
 \<and> type (IRNode off k (NodeData_Block b1) es ss) = Inl Unreachable
 \<and> type (IRNode off k (NodeData_Enum b2) es ss) = Inl Unreachable
 \<and> type (IRNode off k (NodeData_ForStatement b3) es ss) = Inl Unreachable
 \<and> type (IRNode off k (NodeData_String b4) es ss) = Inl Unreachable
 \<and> type (IRNode off k (NodeData_SymbolAlias b5) es ss) = Inl Unreachable"
  by (simp add: type_def and_then_def deref_def boolLiteralData_def externalValueData_def
      fieldData_def floatLiteralData_def functionCallData_def intLiteralData_def symbolData_def
      typeData_def typeTokenData_def variableData_def SkUNREACHABLE_def SkASSERT_def)

text \<open>
  Claim C10. A node of the TypeReference shape whose payload was built from the default
  argument of its constructor stores the null pointer: its accessor \<open>typeData()\<close> returns
  null, and \<open>type()\<close> dereferences it, which is a fault of its own kind and neither an
  assertion failure nor a reference. With a pointer to a type \<open>t\<close> in the same place
  \<open>type()\<close> returns \<open>t\<close>, so the pointer being non-null is exactly the condition under which
  \<open>type()\<close> is defined on this shape.
\<close>

theorem type_of_null_type_reference:
  "fData (IRNode off k (NodeData_Type default_type_data) es ss) = NodeData_Type Null
 \<and> NodeData_fKind (fData (IRNode off k (NodeData_Type default_type_data) es ss)) = kType
 \<and> typeData (IRNode off k (NodeData_Type default_type_data) es ss) = Inr Null
 \<and> type (IRNode off k (NodeData_Type default_type_data) es ss) = Inl NullDereference
 \<and> type (IRNode off k (NodeData_Type (Ptr t)) es ss) = Inr t"
  by (simp add: type_def and_then_def deref_def typeData_def default_type_data_def SkASSERT_def)

subsection \<open>Copy assignment of a node\<close>

lemma IRNode_assign_Distinct:
  "IRNode_assign u this (Distinct other) h =
     SkASSERT (fExpressionChildren other = [])
       (Inr (IRNode (fOffset other) (fKind other) (fData other)
               (fExpressionChildren this) (fStatementChildren this),
             shared_ptr_copy (payload_handle (fData other)) (cleanup (fData this) h)))"
  by (simp add: IRNode_assign_def referent_def NodeData_assign_Distinct)

lemma IRNode_assign_Same:
  "IRNode_assign u this Same h =
     SkASSERT (fExpressionChildren this = [])
       (Inr (IRNode (fOffset this) (fKind this) (placement_new (NodeData_fKind (fData this)) u)
               (fExpressionChildren this) (fStatementChildren this),
             cleanup (fData this) h))"
  by (simp add: IRNode_assign_def referent_def NodeData_assign_Same)

text \<open>
  Claim C3. Copy-assigning from another node does what the claim says: from a source
  without expression children it succeeds, and the node it yields has the kind, the
  offset and the payload of the source; from a source with an expression child it fails
  the assertion. Copy-assigning a node to itself does not: \<^verbatim>\<open>NodeData::operator=\<close> has
  no test for \<^verbatim>\<open>this == &other\<close>, so it destroys the payload and then copies from the
  fresh member that it has just built in its place. A node without expression children
  and with the String payload \<open>abc\<close> succeeds and is left with the empty String; one with
  a Block payload is left with a null handle, its share given back and, if that was the
  last share, the table destroyed.
\<close>

theorem copy_assign_cases:
  "IRNode_assign u this (Distinct (IRNode off' k' d' [] ss')) h
     = Inr (IRNode off' k' d' (fExpressionChildren this) (fStatementChildren this),
            shared_ptr_copy (payload_handle d') (cleanup (fData this) h))
 \<and> IRNode_assign u this (Distinct (IRNode off' k' d' (e # es') ss')) h = Inl AssertionFailed
 \<and> IRNode_assign u (IRNode off k d (e # es) ss) Same h = Inl AssertionFailed
 \<and> IRNode_assign u (IRNode off k d [] ss) Same h
     = Inr (IRNode off k (placement_new (NodeData_fKind d) u) [] ss, cleanup d h)
 \<and> IRNode_assign u (IRNode off k (NodeData_String ''abc'') [] ss) Same h
     = Inr (IRNode off k (NodeData_String []) [] ss, h)
 \<and> IRNode_assign u
      (IRNode off k (NodeData_Block \<lparr>BlockData.fSymbolTable = Ptr 7, fIsScope = True\<rparr>) [] ss)
      Same h
     = Inr (IRNode off k
              (NodeData_Block \<lparr>BlockData.fSymbolTable = Null, fIsScope = fIsScope (asBlock u)\<rparr>)
              [] ss,
            shared_ptr_release (Ptr 7) h)
 \<and> log (shared_ptr_release (Ptr 7) last_share_heap) = [Release 7, TableDestroyed 7]
 \<and> use_count (shared_ptr_release (Ptr 7) last_share_heap) 7 = 0"
  by (simp add: IRNode_assign_Distinct IRNode_assign_Same SkASSERT_def
      shared_ptr_release_def last_share_heap_def)

text \<open>
  Claim C9. A copy assignment that succeeds changes the kind, the offset and the payload
  of the destination and nothing else of it: the node it yields has the expression
  children and the statement children that the destination had before, whether the source
  is another node or the destination itself. From another node it is the destination's
  children with the kind, the offset and the payload of the source, and nothing of the
  statement children of the source, whatever they are.
\<close>

theorem copy_assign_frame:
  "IRNode_assign u this other h = Inr (n', h') \<Longrightarrow>
     fExpressionChildren n' = fExpressionChildren this
   \<and> fStatementChildren n' = fStatementChildren this
   \<and> (\<forall>v. other = Distinct v \<longrightarrow>
         n' = IRNode (fOffset v) (fKind v) (fData v)
                (fExpressionChildren this) (fStatementChildren this))"
  by (cases other)
    (auto simp: IRNode_assign_Distinct IRNode_assign_Same SkASSERT_def split: if_splits)

theorem copy_assign_frame_witness:
  "IRNode_assign blank parent_node
     (Distinct (IRNode 8 1 (NodeData_String ''s'') [] scenario_B_children)) empty_heap
     = Inr (IRNode 8 1 (NodeData_String ''s'') [Some type_node, None] [Some string_node],
            empty_heap)
 \<and> fExpressionChildren
      (IRNode 8 1 (NodeData_String ''s'') [Some type_node, None] [Some string_node])
     = fExpressionChildren parent_node
 \<and> fStatementChildren
      (IRNode 8 1 (NodeData_String ''s'') [Some type_node, None] [Some string_node])
     = fStatementChildren parent_node"
proof -
  have a: "IRNode_assign blank parent_node
      (Distinct (IRNode 8 1 (NodeData_String ''s'') [] scenario_B_children)) empty_heap
     = Inr (IRNode 8 1 (NodeData_String ''s'') [Some type_node, None] [Some string_node],
            empty_heap)"
    by (simp add: IRNode_assign_Distinct SkASSERT_def parent_node_def shared_ptr_copy_def)
  from copy_assign_frame [OF a] show ?thesis
    using a by simp
qed

subsection \<open>The payload variant\<close>

text \<open>
  Claim C5. The copy of a payload is equal to its source in every field: the values, the
  shared handle, and the addresses in the non-owning pointers, which therefore point to
  the same type, function, variable, symbol and external value as those of the source. On
  the heap, the copy of a payload with a handle to the table at \<open>a\<close> adds one share of
  that table, logs this one acquisition, and changes no other count; the copy of a payload
  without a handle, or with a null handle, changes nothing.
\<close>

theorem payload_copy:
  "fst (NodeData_copy uninit other h) = other
 \<and> use_count (snd (NodeData_copy uninit other h)) =
      (case payload_handle other of
         Null \<Rightarrow> use_count h
       | Ptr a \<Rightarrow> (use_count h)(a := Suc (use_count h a)))
 \<and> log (snd (NodeData_copy uninit other h)) =
      log h @ (case payload_handle other of Null \<Rightarrow> [] | Ptr a \<Rightarrow> [Acquire a])"
  by (simp add: NodeData_copy_def NodeData_assign_Distinct copy_count copy_log)

text \<open>
  Claim C6. An assignment from another variant does what the claim says. Afterwards the
  variant is the source: its shape and all its values. On the heap the assignment first
  gives back the handle of the shape that was active, which destroys the table if that
  was its last share, and only then takes the share for the handle of the new shape: in
  the log, the release of the old handle (and the destruction of its table) comes before
  the acquisition for the new one. An assignment of a variant to itself tears the active
  shape down in the same way, but then installs a default-initialised member of the same
  shape and not the values that the variant had: the handle is null and no share is
  taken, a String \<open>abc\<close> has become the empty String, and a Block on the last share of
  its table has lost the table.
\<close>

theorem payload_assign:
  "fst (NodeData_assign u this (Distinct other) h) = other
 \<and> snd (NodeData_assign u this (Distinct other) h) =
      shared_ptr_copy (payload_handle other) (shared_ptr_release (payload_handle this) h)
 \<and> log (snd (NodeData_assign u this (Distinct other) h)) =
      log h
      @ (case payload_handle this of
           Null \<Rightarrow> []
         | Ptr a \<Rightarrow> Release a # (if use_count h a \<le> 1 then [TableDestroyed a] else []))
      @ (case payload_handle other of Null \<Rightarrow> [] | Ptr b \<Rightarrow> [Acquire b])
 \<and> fst (NodeData_assign u this Same h) = placement_new (NodeData_fKind this) u
 \<and> payload_handle (fst (NodeData_assign u this Same h)) = Null
 \<and> snd (NodeData_assign u this Same h) = shared_ptr_release (payload_handle this) h
 \<and> NodeData_assign u (NodeData_String ''abc'') Same h = (NodeData_String [], h)
 \<and> NodeData_assign u (NodeData_Block \<lparr>BlockData.fSymbolTable = Ptr 7, fIsScope = True\<rparr>)
      Same h
     = (NodeData_Block \<lparr>BlockData.fSymbolTable = Null, fIsScope = fIsScope (asBlock u)\<rparr>,
        shared_ptr_release (Ptr 7) h)
 \<and> log (shared_ptr_release (Ptr 7) last_share_heap) = [Release 7, TableDestroyed 7]
 \<and> use_count (shared_ptr_release (Ptr 7) last_share_heap) 7 = 0"
  by (simp add: NodeData_assign_Distinct NodeData_assign_Same cleanup_eq copy_log release_log
      placement_new_handle last_share_heap_def release_count)
    (simp add: shared_ptr_release_def)

subsection \<open>Child access\<close>

text \<open>
  Claim C7. For an index \<open>i\<close> with \<open>0 \<le> i < expressionChildCount()\<close>, the index is a
  position of the expression sequence and \<open>expressionChild(i)\<close> dereferences the slot at
  that position: it returns the child \<open>c\<close> that the slot holds. (A slot is a
  \<^verbatim>\<open>std::unique_ptr\<close>; for a slot that holds no child the dereference is a fault.) For
  every other index the assertion fails. The same holds for \<open>statementChild\<close> and the
  statement sequence. Every position \<open>j\<close> of a sequence is reached by the index \<open>j\<close>, so
  the children come in the order of the sequence. \<open>statementChild\<close> does not depend on the
  expression sequence or on any other field of the node, nor \<open>expressionChild\<close> on the
  statement sequence.
\<close>

theorem child_access_in_order:
  "(0 \<le> sint i \<and> sint i < sint (expressionChildCount (IRNode off k d es ss)) \<longrightarrow>
      unat i < length es
    \<and> expressionChild (IRNode off k d es ss) i = unique_ptr_deref (es ! unat i)
    \<and> (\<forall>c. es ! unat i = Some c \<longrightarrow> expressionChild (IRNode off k d es ss) i = Inr c))
 \<and> (\<not> (0 \<le> sint i \<and> sint i < sint (expressionChildCount (IRNode off k d es ss))) \<longrightarrow>
      expressionChild (IRNode off k d es ss) i = Inl AssertionFailed)
 \<and> (0 \<le> sint i \<and> sint i < sint (statementChildCount (IRNode off k d es ss)) \<longrightarrow>
      unat i < length ss
    \<and> statementChild (IRNode off k d es ss) i = unique_ptr_deref (ss ! unat i)
    \<and> (\<forall>c. ss ! unat i = Some c \<longrightarrow> statementChild (IRNode off k d es ss) i = Inr c))
 \<and> (\<not> (0 \<le> sint i \<and> sint i < sint (statementChildCount (IRNode off k d es ss))) \<longrightarrow>
      statementChild (IRNode off k d es ss) i = Inl AssertionFailed)
 \<and> (j < length es \<and> length es < 2 ^ 31 \<longrightarrow>
      expressionChild (IRNode off k d es ss) (word_of_nat j) = unique_ptr_deref (es ! j))
 \<and> (j < length ss \<and> length ss < 2 ^ 31 \<longrightarrow>
      statementChild (IRNode off k d es ss) (word_of_nat j) = unique_ptr_deref (ss ! j))
 \<and> statementChild (IRNode off k d es ss) i = statementChild (IRNode off' k' d' es' ss) i
 \<and> expressionChild (IRNode off k d es ss) i = expressionChild (IRNode off' k' d' es ss') i"
proof (intro conjI impI allI)
  assume r: "0 \<le> sint i \<and> sint i < sint (expressionChildCount (IRNode off k d es ss))"
  from r show "unat i < length es"
    by (rule expressionChild_in_range(1))
  from r show "expressionChild (IRNode off k d es ss) i = unique_ptr_deref (es ! unat i)"
    by (rule expressionChild_in_range(2))
  fix c
  assume "es ! unat i = Some c"
  with expressionChild_in_range(2) [OF r]
  show "expressionChild (IRNode off k d es ss) i = Inr c"
    by (simp add: unique_ptr_deref_def)
next
  assume "\<not> (0 \<le> sint i \<and> sint i < sint (expressionChildCount (IRNode off k d es ss)))"
  then show "expressionChild (IRNode off k d es ss) i = Inl AssertionFailed"
    by (rule expressionChild_out_of_range)
next
  assume r: "0 \<le> sint i \<and> sint i < sint (statementChildCount (IRNode off k d es ss))"
  from r show "unat i < length ss"
    by (rule statementChild_in_range(1))
  from r show "statementChild (IRNode off k d es ss) i = unique_ptr_deref (ss ! unat i)"
    by (rule statementChild_in_range(2))
  fix c
  assume "ss ! unat i = Some c"
  with statementChild_in_range(2) [OF r]
  show "statementChild (IRNode off k d es ss) i = Inr c"
    by (simp add: unique_ptr_deref_def)
next
  assume "\<not> (0 \<le> sint i \<and> sint i < sint (statementChildCount (IRNode off k d es ss)))"
  then show "statementChild (IRNode off k d es ss) i = Inl AssertionFailed"
    by (rule statementChild_out_of_range)
next
  assume "j < length es \<and> length es < 2 ^ 31"
  then show "expressionChild (IRNode off k d es ss) (word_of_nat j) = unique_ptr_deref (es ! j)"
    by (rule expressionChild_position)
next
  assume "j < length ss \<and> length ss < 2 ^ 31"
  then show "statementChild (IRNode off k d es ss) (word_of_nat j) = unique_ptr_deref (ss ! j)"
    by (rule statementChild_position)
next
  show "statementChild (IRNode off k d es ss) i = statementChild (IRNode off' k' d' es' ss) i"
    by (rule children_independent(1))
  show "expressionChild (IRNode off k d es ss) i = expressionChild (IRNode off' k' d' es ss') i"
    by (rule children_independent(2))
qed

theorem child_access_in_order_witness:
  "(0 \<le> sint (0 :: 32 word) \<and> sint (0 :: 32 word) < sint (expressionChildCount parent_node))
 \<and> expressionChild parent_node 0 = Inr type_node
 \<and> expressionChild parent_node 1 = Inl NullDereference
 \<and> \<not> (0 \<le> sint (2 :: 32 word) \<and> sint (2 :: 32 word) < sint (expressionChildCount parent_node))
 \<and> expressionChild parent_node 2 = Inl AssertionFailed
 \<and> (0 \<le> sint (0 :: 32 word) \<and> sint (0 :: 32 word) < sint (statementChildCount parent_node))
 \<and> statementChild parent_node 0 = Inr string_node
 \<and> \<not> (0 \<le> sint (2 :: 32 word) \<and> sint (2 :: 32 word) < sint (statementChildCount parent_node))
 \<and> statementChild parent_node 2 = Inl AssertionFailed"
  using
    child_access_in_order [where i = 0 and j = 0 and off = 3 and k = 4
      and d = "NodeData_Type (Ptr 5)" and es = "[Some type_node, None]"
      and ss = "[Some string_node]"]
    child_access_in_order [where i = 1 and j = 1 and off = 3 and k = 4
      and d = "NodeData_Type (Ptr 5)" and es = "[Some type_node, None]"
      and ss = "[Some string_node]"]
    child_access_in_order [where i = 2 and j = 0 and off = 3 and k = 4
      and d = "NodeData_Type (Ptr 5)" and es = "[Some type_node, None]"
      and ss = "[Some string_node]"]
  by (simp add: parent_node_def expressionChildCount_def statementChildCount_def
      size_as_int_def unique_ptr_deref_def)

subsection \<open>The shape of a payload over the life of a node\<close>




subsection \<open>Scenario C: the dead-code predicate\<close>




subsection \<open>The order of destruction\<close>


lemma log_since_append: "log h' = log h @ L \<Longrightarrow> log_since h h' = L"
  by (simp add: log_since_def)

text \<open>
  Claim C1. Let a node have the Block or the ForHeader shape with a handle to the table at
  \<open>a\<close>, and let the heap hold at least as many shares of that table as the node and its
  descendants hold handles to it. Destroying the node destroys the statement children
  first (heap \<open>h1\<close>), then the expression children (heap \<open>h2\<close>), and only then releases
  the handle of the payload. While the children are destroyed the table at \<open>a\<close> is never
  destroyed, and its share count is still positive when the last child is gone; the
  release by the payload is the last event of the destruction. If the node and its
  descendants hold all the shares, the count reaches zero with that last release, and the
  table is destroyed then and not before.
\<close>

theorem statement_children_destroyed_before_payload:
  assumes shape:
    "fData n = NodeData_Block \<lparr>BlockData.fSymbolTable = Ptr a, fIsScope = b\<rparr>
     \<or> fData n = NodeData_ForStatement \<lparr>fSymbolTable = Ptr a\<rparr>"
    and shares: "handles n a \<le> use_count h a"
  shows
    "(let h1 = destroy_children (fStatementChildren n) h;
          h2 = destroy_children (fExpressionChildren n) h1
      in destroy n h = shared_ptr_release (Ptr a) h2
       \<and> log h1 = log h @ log_since h h1
       \<and> TableDestroyed a \<notin> set (log_since h h1)
       \<and> 0 < use_count h1 a
       \<and> log h2 = log h1 @ log_since h1 h2
       \<and> TableDestroyed a \<notin> set (log_since h1 h2)
       \<and> 0 < use_count h2 a
       \<and> log (destroy n h) =
           log h2 @ Release a # (if use_count h2 a \<le> 1 then [TableDestroyed a] else [])
       \<and> use_count (destroy n h) a = use_count h a - handles n a
       \<and> (use_count h a = handles n a \<longrightarrow>
            use_count (destroy n h) a = 0
          \<and> log (destroy n h) = log h2 @ [Release a, TableDestroyed a]))"
proof -
  define d where "d = fData n"
  define es where "es = fExpressionChildren n"
  define ss where "ss = fStatementChildren n"
  have n: "n = IRNode (fOffset n) (fKind n) d es ss"
    by (simp add: d_def es_def ss_def)
  define h1 where "h1 = destroy_children (fStatementChildren n) h"
  define h2 where "h2 = destroy_children (fExpressionChildren n) h1"
  from shape have ph: "payload_handle d = Ptr a"
    by (auto simp: d_def)
  have hn: "handles n a = Suc (handles_children es a + handles_children ss a)"
    using ph by (subst n) simp
  from shares hn have tot: "Suc (handles_children es a + handles_children ss a) \<le> use_count h a"
    by simp
  then have ss_lt: "handles_children ss a < use_count h a"
    by simp
  from destroy_keeps_table(2) [OF ss_lt] obtain L1
    where L1: "log h1 = log h @ L1" "TableDestroyed a \<notin> set L1"
    unfolding h1_def ss_def by blast
  have c1: "use_count h1 a = use_count h a - handles_children ss a"
    unfolding h1_def ss_def using ss_lt by (simp add: destroy_count(2) ss_def)
  with tot have es_lt: "handles_children es a < use_count h1 a"
    by simp
  from destroy_keeps_table(2) [OF es_lt] obtain L2
    where L2: "log h2 = log h1 @ L2" "TableDestroyed a \<notin> set L2"
    unfolding h2_def es_def by blast
  have c2: "use_count h2 a = use_count h1 a - handles_children es a"
    unfolding h2_def es_def using es_lt by (simp add: destroy_count(2) es_def)
  have "destroy n h = cleanup d (destroy_children es (destroy_children ss h))"
    by (subst n) simp
  then have d: "destroy n h = shared_ptr_release (Ptr a) h2"
    using ph by (simp add: h1_def h2_def es_def ss_def cleanup_eq)
  have s1: "log_since h h1 = L1"
    using L1(1) by (rule log_since_append)
  have s2: "log_since h1 h2 = L2"
    using L2(1) by (rule log_since_append)
  have p1: "0 < use_count h1 a"
    using es_lt by simp
  have p2: "0 < use_count h2 a"
    using c2 es_lt by simp
  have lg: "log (destroy n h) =
      log h2 @ Release a # (if use_count h2 a \<le> 1 then [TableDestroyed a] else [])"
    by (simp add: d release_log)
  have cnt: "use_count (destroy n h) a = use_count h a - handles n a"
    using shares by (rule destroy_count(1))
  have fin: "use_count (destroy n h) a = 0
      \<and> log (destroy n h) = log h2 @ [Release a, TableDestroyed a]"
    if eq: "use_count h a = handles n a"
  proof -
    from eq hn c1 c2 have "use_count h2 a = 1"
      by simp
    with lg cnt eq show ?thesis
      by simp
  qed
  have "destroy n h = shared_ptr_release (Ptr a) h2
       \<and> log h1 = log h @ log_since h h1
       \<and> TableDestroyed a \<notin> set (log_since h h1)
       \<and> 0 < use_count h1 a
       \<and> log h2 = log h1 @ log_since h1 h2
       \<and> TableDestroyed a \<notin> set (log_since h1 h2)
       \<and> 0 < use_count h2 a
       \<and> log (destroy n h) =
           log h2 @ Release a # (if use_count h2 a \<le> 1 then [TableDestroyed a] else [])
       \<and> use_count (destroy n h) a = use_count h a - handles n a
       \<and> (use_count h a = handles n a \<longrightarrow>
            use_count (destroy n h) a = 0
          \<and> log (destroy n h) = log h2 @ [Release a, TableDestroyed a])"
    using d L1 L2 s1 s2 p1 p2 lg cnt fin by blast
  then show ?thesis
    unfolding Let_def h1_def h2_def .
qed

theorem statement_children_destroyed_before_payload_witness:
  "fData scenario_B_block = NodeData_Block \<lparr>BlockData.fSymbolTable = Ptr 7, fIsScope = True\<rparr>
 \<and> handles scenario_B_block 7 \<le> use_count scenario_B_heap 7
 \<and> use_count scenario_B_heap 7 = handles scenario_B_block 7
 \<and> length (fStatementChildren scenario_B_block) = 3
 \<and> log (destroy_children (fStatementChildren scenario_B_block) scenario_B_heap)
      = [Release 7, Release 9, TableDestroyed 9]
 \<and> TableDestroyed 7
      \<notin> set (log_since scenario_B_heap
               (destroy_children (fStatementChildren scenario_B_block) scenario_B_heap))
 \<and> use_count (destroy_children (fStatementChildren scenario_B_block) scenario_B_heap) 7 = 1
 \<and> log (destroy scenario_B_block scenario_B_heap)
      = [Release 7, Release 9, TableDestroyed 9, Release 7, TableDestroyed 7]
 \<and> use_count (destroy scenario_B_block scenario_B_heap) 7 = 0"
proof -
  have shape: "fData scenario_B_block
       = NodeData_Block \<lparr>BlockData.fSymbolTable = Ptr 7, fIsScope = True\<rparr>
     \<or> fData scenario_B_block = NodeData_ForStatement \<lparr>fSymbolTable = Ptr 7\<rparr>"
    by (simp add: scenario_B_block_def)
  have eq: "use_count scenario_B_heap 7 = handles scenario_B_block 7"
    by (simp add: scenario_B_block_def scenario_B_children_def scenario_B_heap_def)
  then have shares: "handles scenario_B_block 7 \<le> use_count scenario_B_heap 7"
    by simp
  have l1: "log (destroy_children (fStatementChildren scenario_B_block) scenario_B_heap)
      = [Release 7, Release 9, TableDestroyed 9]"
    by (simp add: scenario_B_block_def scenario_B_children_def scenario_B_heap_def
        shared_ptr_release_def)
  have e: "destroy_children (fExpressionChildren scenario_B_block) = (\<lambda>h. h)"
    by (rule ext) (simp add: scenario_B_block_def)
  have c1: "use_count (destroy_children (fStatementChildren scenario_B_block) scenario_B_heap) 7
      = 1"
    by (simp add: scenario_B_block_def scenario_B_children_def scenario_B_heap_def
        shared_ptr_release_def)
  have len: "length (fStatementChildren scenario_B_block) = 3"
    by (simp add: scenario_B_block_def scenario_B_children_def)
  from statement_children_destroyed_before_payload [OF shape shares] eq l1 e c1 len
  show ?thesis
    by (simp add: Let_def scenario_B_block_def)
qed

end
